theory Spec2Isabelle
  imports Main
begin

section \<open>Package-group install and uninstall commands (rpm_admin_consumer/group.py)\<close>

text \<open>
  The module defines two polling commands, \<open>Install\<close> and \<open>Uninstall\<close>. Each declares
  its command-line options in \<open>__init__\<close>, turns the parsed arguments into a request in
  \<open>run\<close>, talks to the server in \<open>install\<close> / \<open>uninstall\<close>, and prints the result
  document of a finished task in \<open>succeeded\<close>.

  Everything the commands do is an effect on something outside the module: a call of the
  server bindings, a call of the prompt, or a call of a method inherited from
  \<open>PollingCommand\<close>. The embedding records each such call, in order, in a list of
  events, and returns that list together with the outcome of the method: \<open>Inr ()\<close> when
  it returns, \<open>Inl e\<close> when the exception \<open>e\<close> leaves it.
\<close>

subsection \<open>Exceptions and Python values\<close>

text \<open>
  \<open>NotFoundException\<close> is the one exception class the module names. \<open>KeyError\<close> and
  \<open>TypeError\<close> are what subscripting a decoded JSON document raises; every other
  exception a call may raise is \<open>OtherException\<close>.
\<close>

datatype exc = NotFoundException | KeyError string | TypeError | OtherException string

text \<open>A decoded JSON document, as the task result is.\<close>

datatype pyval =
    PNone
  | PBool bool
  | PInt int
  | PStr string
  | PList "pyval list"
  | PDict "(string \<times> pyval) list"

text \<open>Python's truth value: \<open>None\<close>, \<open>False\<close>, zero and the empty containers are false.\<close>

fun truthy :: "pyval \<Rightarrow> bool" where
  "truthy PNone = False"
| "truthy (PBool b) = b"
| "truthy (PInt i) = (i \<noteq> 0)"
| "truthy (PStr s) = (s \<noteq> [])"
| "truthy (PList xs) = (xs \<noteq> [])"
| "truthy (PDict kvs) = (kvs \<noteq> [])"

text \<open>
  \<open>v[k]\<close> for a string key: a dictionary raises \<open>KeyError\<close> on a missing key, every
  other value raises \<open>TypeError\<close>.
\<close>

fun subscript :: "pyval \<Rightarrow> string \<Rightarrow> exc + pyval" where
  "subscript (PDict kvs) k = (case map_of kvs k of None \<Rightarrow> Inl (KeyError k) | Some v \<Rightarrow> Inr v)"
| "subscript PNone k = Inl TypeError"
| "subscript (PBool b) k = Inl TypeError"
| "subscript (PInt i) k = Inl TypeError"
| "subscript (PStr s) k = Inl TypeError"
| "subscript (PList xs) k = Inl TypeError"

subsection \<open>Requests, tasks and the recorded calls\<close>

text \<open>
  A unit descriptor is \<open>dict(type_id=..., unit_key=dict(name=...))\<close>; the options bag is
  a dictionary from option names to booleans. Dictionaries with values of one type are
  association lists read with \<open>map_of\<close>.
\<close>

type_synonym unit_key = "(string \<times> string) list"

record content_unit =
  type_id :: string
  unit_key :: unit_key

type_synonym options = "(string \<times> bool) list"

text \<open>The \<open>response_body\<close> of a server response: a task with its id and result document.\<close>

record task =
  task_id :: string
  result :: pyval

datatype event =
    is_install_call: ConsumerContentInstall (call_consumer_id: string) (call_units: "content_unit list") (call_options: options)
  | is_uninstall_call: ConsumerContentUninstall (call_consumer_id: string) (call_units: "content_unit list") (call_options: options)
  | is_get_task: TasksGetTask string
  | is_rejected: Rejected task
  | is_postponed: Postponed task
  | is_process: Process string task
  | RenderSuccessMessage string
  | RenderFailureMessage pyval
  | RenderTitle string
  | RenderDocumentList pyval "string list" "string list"
  | Write string string

text \<open>
  What the commands call and do not define: the server bindings
  (\<open>server.consumer_content.install\<close>, \<open>server.consumer_content.uninstall\<close>,
  \<open>server.tasks.get_task\<close>, each giving the response body or raising) and the methods
  \<open>rejected\<close>, \<open>postponed\<close> and \<open>process\<close> inherited from \<open>PollingCommand\<close>. They are
  parameters of the embedding.
\<close>

record command_context =
  consumer_content_install :: "string \<Rightarrow> content_unit list \<Rightarrow> options \<Rightarrow> exc + task"
  consumer_content_uninstall :: "string \<Rightarrow> content_unit list \<Rightarrow> options \<Rightarrow> exc + task"
  tasks_get_task :: "string \<Rightarrow> exc + task"
  rejected :: "task \<Rightarrow> exc + bool"
  postponed :: "task \<Rightarrow> exc + bool"
  process :: "string \<Rightarrow> task \<Rightarrow> exc + unit"

type_synonym outcome = "(exc + unit) \<times> event list"

subsection \<open>The option surface: \<open>Install.__init__\<close> and \<open>Uninstall.__init__\<close>\<close>

text \<open>
  \<open>__init__\<close> names the command and declares its options with \<open>create_option\<close> and
  \<open>create_flag\<close>. A declaration keeps the keyword arguments as the call passes them:
  \<open>None\<close> is an argument the call leaves to the framework's default.
\<close>

datatype option_decl =
    is_option: CreateOption (opt_name: string) (opt_description: string)
      (opt_required: "bool option") (opt_allow_multiple: "bool option") (opt_aliases: "string list option")
  | is_flag: CreateFlag (opt_name: string) (opt_description: string)

record cli_command =
  cmd_name :: string
  cmd_description :: string
  cmd_options :: "option_decl list"

definition create_option :: "cli_command \<Rightarrow> option_decl \<Rightarrow> cli_command" where
  "create_option self d = self\<lparr>cmd_options := cmd_options self @ [d]\<rparr>"

definition Install_init :: cli_command where
  "Install_init =
     (let self = \<lparr>cmd_name = ''run'',
                  cmd_description = ''triggers an immediate package-group install on a consumer'',
                  cmd_options = []\<rparr>;
          self = create_option self
                   (CreateOption ''--consumer-id'' ''identifies the consumer'' (Some True) None None);
          self = create_option self
                   (CreateFlag ''--no-commit'' ''transaction not committed'');
          self = create_option self
                   (CreateFlag ''--reboot'' ''reboot after successful transaction'');
          self = create_option self
                   (CreateOption ''--name'' ''package group name; may repeat for multiple groups''
                      (Some True) (Some True) (Some [''-n'']));
          self = create_option self
                   (CreateFlag ''--import-keys'' ''import GPG keys as needed'')
      in self)"

definition Uninstall_init :: cli_command where
  "Uninstall_init =
     (let self = \<lparr>cmd_name = ''run'',
                  cmd_description = ''triggers an immediate package-group removal on a consumer'',
                  cmd_options = []\<rparr>;
          self = create_option self
                   (CreateOption ''--consumer-id'' ''identifies the consumer'' (Some True) None None);
          self = create_option self
                   (CreateFlag ''--no-commit'' ''transaction not committed'');
          self = create_option self
                   (CreateFlag ''--reboot'' ''reboot after successful transaction'');
          self = create_option self
                   (CreateOption ''--name'' ''package group name; may repeat for multiple groups''
                      (Some True) (Some True) (Some [''-n'']))
      in self)"

subsection \<open>The parsed arguments\<close>

text \<open>
  \<open>run\<close> receives one keyword argument for each option its command declares, keyed by
  the option's name without the dashes: a string for \<open>consumer-id\<close>, the list of given
  values for the repeatable \<open>name\<close>, a boolean for each flag. The uninstall command
  declares no \<open>--import-keys\<close>, so only the install command's arguments have that key.
\<close>

record run_kwargs =
  kw_consumer_id :: string
  kw_no_commit :: bool
  kw_reboot :: bool
  kw_name :: "string list"

record install_kwargs = run_kwargs +
  kw_import_keys :: bool

subsection \<open>\<open>Install\<close>\<close>

text \<open>
  The loop of \<open>run\<close>: one descriptor appended to \<open>units\<close> for each name.
  \<open>TYPE_ID_PKG_GROUP\<close> is imported from \<open>pulp_rpm.common.ids\<close>; its value is a
  parameter, written \<open>tid\<close>.
\<close>

fun append_units :: "string \<Rightarrow> string list \<Rightarrow> content_unit list \<Rightarrow> content_unit list" where
  "append_units tid [] units = units"
| "append_units tid (n # names) units =
     (let unit_key = [(''name'', n)];
          unit = \<lparr>type_id = tid, unit_key = unit_key\<rparr>
      in append_units tid names (units @ [unit]))"

text \<open>The body of the \<open>try\<close> block of \<open>install\<close>.\<close>

definition Install_try :: "command_context \<Rightarrow> string \<Rightarrow> content_unit list \<Rightarrow> options \<Rightarrow> outcome" where
  "Install_try ctx consumer_id units options =
     (let log0 = [ConsumerContentInstall consumer_id units options] in
      case consumer_content_install ctx consumer_id units options of
        Inl e \<Rightarrow> (Inl e, log0)
      | Inr task \<Rightarrow>
          let msg = ''Install task created with id ['' @ task_id task @ '']'';
              log1 = log0 @ [RenderSuccessMessage msg, TasksGetTask (task_id task)]
          in (case tasks_get_task ctx (task_id task) of
                Inl e \<Rightarrow> (Inl e, log1)
              | Inr task' \<Rightarrow>
                  let log2 = log1 @ [Rejected task'] in
                  (case rejected ctx task' of
                     Inl e \<Rightarrow> (Inl e, log2)
                   | Inr r \<Rightarrow>
                       if r then (Inr (), log2)
                       else
                         let log3 = log2 @ [Postponed task'] in
                         (case postponed ctx task' of
                            Inl e \<Rightarrow> (Inl e, log3)
                          | Inr p \<Rightarrow>
                              if p then (Inr (), log3)
                              else
                                let log4 = log3 @ [Process consumer_id task'] in
                                (case process ctx consumer_id task' of
                                   Inl e \<Rightarrow> (Inl e, log4)
                                 | Inr u \<Rightarrow> (Inr (), log4))))))"

text \<open>\<open>install\<close>: the \<open>try\<close> block with its single handler, \<open>except NotFoundException\<close>.\<close>

definition Install_install :: "command_context \<Rightarrow> string \<Rightarrow> content_unit list \<Rightarrow> options \<Rightarrow> outcome" where
  "Install_install ctx consumer_id units options =
     (let (r, log) = Install_try ctx consumer_id units options in
      if r = Inl NotFoundException
      then (Inr (), log @ [Write (''Consumer ['' @ consumer_id @ ''] not found'') ''not-found''])
      else (r, log))"

definition Install_run :: "command_context \<Rightarrow> string \<Rightarrow> install_kwargs \<Rightarrow> outcome" where
  "Install_run ctx tid kwargs =
     (let consumer_id = kw_consumer_id kwargs;
          apply = (\<not> kw_no_commit kwargs);
          importkeys = kw_import_keys kwargs;
          reboot = kw_reboot kwargs;
          units = [];
          options = [(''apply'', apply), (''importkeys'', importkeys), (''reboot'', reboot)];
          units = append_units tid (kw_name kwargs) units
      in Install_install ctx consumer_id units options)"

subsection \<open>\<open>Uninstall\<close>\<close>

definition Uninstall_try :: "command_context \<Rightarrow> string \<Rightarrow> content_unit list \<Rightarrow> options \<Rightarrow> outcome" where
  "Uninstall_try ctx consumer_id units options =
     (let log0 = [ConsumerContentUninstall consumer_id units options] in
      case consumer_content_uninstall ctx consumer_id units options of
        Inl e \<Rightarrow> (Inl e, log0)
      | Inr task \<Rightarrow>
          let msg = ''Uninstall task created with id['' @ task_id task @ '']'';
              log1 = log0 @ [RenderSuccessMessage msg, TasksGetTask (task_id task)]
          in (case tasks_get_task ctx (task_id task) of
                Inl e \<Rightarrow> (Inl e, log1)
              | Inr task' \<Rightarrow>
                  let log2 = log1 @ [Rejected task'] in
                  (case rejected ctx task' of
                     Inl e \<Rightarrow> (Inl e, log2)
                   | Inr r \<Rightarrow>
                       if r then (Inr (), log2)
                       else
                         let log3 = log2 @ [Postponed task'] in
                         (case postponed ctx task' of
                            Inl e \<Rightarrow> (Inl e, log3)
                          | Inr p \<Rightarrow>
                              if p then (Inr (), log3)
                              else
                                let log4 = log3 @ [Process consumer_id task'] in
                                (case process ctx consumer_id task' of
                                   Inl e \<Rightarrow> (Inl e, log4)
                                 | Inr u \<Rightarrow> (Inr (), log4))))))"

definition Uninstall_uninstall :: "command_context \<Rightarrow> string \<Rightarrow> content_unit list \<Rightarrow> options \<Rightarrow> outcome" where
  "Uninstall_uninstall ctx consumer_id units options =
     (let (r, log) = Uninstall_try ctx consumer_id units options in
      if r = Inl NotFoundException
      then (Inr (), log @ [Write (''Consumer ['' @ consumer_id @ ''] not found'') ''not-found''])
      else (r, log))"

definition Uninstall_run :: "command_context \<Rightarrow> string \<Rightarrow> run_kwargs \<Rightarrow> outcome" where
  "Uninstall_run ctx tid kwargs =
     (let consumer_id = kw_consumer_id kwargs;
          apply = (\<not> kw_no_commit kwargs);
          reboot = kw_reboot kwargs;
          units = [];
          options = [(''apply'', apply), (''reboot'', reboot)];
          units = append_units tid (kw_name kwargs) units
      in Uninstall_uninstall ctx consumer_id units options)"

subsection \<open>Rendering a finished task: \<open>succeeded\<close>\<close>

text \<open>\<open>task.result['details'][TYPE_ID_PKG_GROUP]['details']\<close>, three subscripts in a row.\<close>

definition group_details :: "string \<Rightarrow> pyval \<Rightarrow> exc + pyval" where
  "group_details tid res =
     (case subscript res ''details'' of
        Inl e \<Rightarrow> Inl e
      | Inr by_type \<Rightarrow>
          (case subscript by_type tid of
             Inl e \<Rightarrow> Inl e
           | Inr report \<Rightarrow> subscript report ''details''))"

text \<open>The column list \<open>filter\<close>, passed as both \<open>order\<close> and \<open>filters\<close>.\<close>

definition filter_columns :: "string list" where
  "filter_columns = [''name'', ''version'', ''arch'', ''repoid'']"

text \<open>
  \<open>Install.succeeded(self, id, task)\<close>. The first argument is not used. An exception
  raised by a subscript leaves the method with what was rendered before it.
\<close>

definition Install_succeeded :: "string \<Rightarrow> string \<Rightarrow> task \<Rightarrow> outcome" where
  "Install_succeeded tid ident task =
     (case subscript (result task) ''status'' of
        Inl e \<Rightarrow> (Inl e, [])
      | Inr status \<Rightarrow>
          if \<not> truthy status then
            (case group_details tid (result task) of
               Inl e \<Rightarrow> (Inl e, [])
             | Inr details \<Rightarrow>
                 let log1 = [RenderFailureMessage (PStr ''Install failed'')] in
                 (case subscript details ''message'' of
                    Inl e \<Rightarrow> (Inl e, log1)
                  | Inr message \<Rightarrow> (Inr (), log1 @ [RenderFailureMessage message])))
          else
            let log1 = [RenderSuccessMessage ''Install Succeeded''] in
            (case group_details tid (result task) of
               Inl e \<Rightarrow> (Inl e, log1)
             | Inr details \<Rightarrow>
                 (case subscript details ''resolved'' of
                    Inl e \<Rightarrow> (Inl e, log1)
                  | Inr resolved \<Rightarrow>
                      let log2 =
                            (if truthy resolved
                             then log1 @ [RenderTitle ''Installed'',
                                          RenderDocumentList resolved filter_columns filter_columns]
                             else log1 @ [RenderSuccessMessage ''Packages for groups already installed''])
                      in (case subscript details ''deps'' of
                            Inl e \<Rightarrow> (Inl e, log2)
                          | Inr deps \<Rightarrow>
                              if truthy deps
                              then (Inr (), log2 @ [RenderTitle ''Installed for dependency'',
                                                    RenderDocumentList deps filter_columns filter_columns])
                              else (Inr (), log2)))))"

definition Uninstall_succeeded :: "string \<Rightarrow> string \<Rightarrow> task \<Rightarrow> outcome" where
  "Uninstall_succeeded tid ident task =
     (case subscript (result task) ''status'' of
        Inl e \<Rightarrow> (Inl e, [])
      | Inr status \<Rightarrow>
          if \<not> truthy status then
            (case group_details tid (result task) of
               Inl e \<Rightarrow> (Inl e, [])
             | Inr details \<Rightarrow>
                 let log1 = [RenderFailureMessage (PStr ''Uninstall Failed'')] in
                 (case subscript details ''message'' of
                    Inl e \<Rightarrow> (Inl e, log1)
                  | Inr message \<Rightarrow> (Inr (), log1 @ [RenderFailureMessage message])))
          else
            let log1 = [RenderSuccessMessage ''Uninstall Succeeded''] in
            (case group_details tid (result task) of
               Inl e \<Rightarrow> (Inl e, log1)
             | Inr details \<Rightarrow>
                 (case subscript details ''resolved'' of
                    Inl e \<Rightarrow> (Inl e, log1)
                  | Inr resolved \<Rightarrow>
                      let log2 =
                            (if truthy resolved
                             then log1 @ [RenderTitle ''Uninstalled'',
                                          RenderDocumentList resolved filter_columns filter_columns]
                             else log1 @ [RenderSuccessMessage ''No matching packages found to uninstall''])
                      in (case subscript details ''deps'' of
                            Inl e \<Rightarrow> (Inl e, log2)
                          | Inr deps \<Rightarrow>
                              if truthy deps
                              then (Inr (), log2 @ [RenderTitle ''Uninstalled for dependency'',
                                                    RenderDocumentList deps filter_columns filter_columns])
                              else (Inr (), log2)))))"

subsection \<open>Reading the recorded calls\<close>

text \<open>The content calls of a log: what was sent to \<open>server.consumer_content\<close>.\<close>

definition content_calls :: "event list \<Rightarrow> event list" where
  "content_calls log = filter (\<lambda>e. is_install_call e \<or> is_uninstall_call e) log"

subsection \<open>Concrete inputs\<close>

text \<open>
  A context whose calls answer with fixed values, whatever their arguments: the two
  content calls with \<open>c\<close>, \<open>get_task\<close> with \<open>g\<close>, \<open>rejected\<close> with \<open>r\<close>,
  \<open>postponed\<close> with \<open>p\<close> and \<open>process\<close> with \<open>q\<close>.
\<close>

definition fixed_context ::
  "exc + task \<Rightarrow> exc + task \<Rightarrow> exc + bool \<Rightarrow> exc + bool \<Rightarrow> exc + unit \<Rightarrow> command_context" where
  "fixed_context c g r p q =
     \<lparr>consumer_content_install = (\<lambda>consumer_id units options. c),
      consumer_content_uninstall = (\<lambda>consumer_id units options. c),
      tasks_get_task = (\<lambda>tid. g),
      rejected = (\<lambda>task. r),
      postponed = (\<lambda>task. p),
      process = (\<lambda>consumer_id task. q)\<rparr>"

definition demo_task :: task where
  "demo_task = \<lparr>task_id = ''t1'', result = PNone\<rparr>"

definition demo_units :: "content_unit list" where
  "demo_units = [\<lparr>type_id = ''package_group'', unit_key = [(''name'', ''web'')]\<rparr>]"

definition demo_options :: options where
  "demo_options = [(''apply'', True), (''importkeys'', False), (''reboot'', False)]"

text \<open>A result document of the shape the server sends, for the type id \<open>package_group\<close>.\<close>

definition report :: "pyval \<Rightarrow> pyval \<Rightarrow> pyval \<Rightarrow> pyval \<Rightarrow> pyval" where
  "report status message resolved deps =
     PDict [(''status'', status),
            (''details'',
               PDict [(''package_group'',
                  PDict [(''status'', status),
                         (''details'',
                            PDict [(''message'', message), (''resolved'', resolved), (''deps'', deps)])])])]"

definition package :: "string \<Rightarrow> pyval" where
  "package n =
     PDict [(''name'', PStr n), (''version'', PStr ''1.0''), (''arch'', PStr ''noarch''),
            (''repoid'', PStr ''repo-1'')]"

section \<open>Properties\<close>

subsection \<open>What \<open>run\<close> sends to the server\<close>

lemma append_units_map:
  "append_units tid names units =
     units @ map (\<lambda>n. \<lparr>type_id = tid, unit_key = [(''name'', n)]\<rparr>) names"
  by (induction names arbitrary: units) (simp_all add: Let_def)

text \<open>Whatever the server and the inherited methods do, the log holds one content call.\<close>

lemma Install_install_content_calls:
  "content_calls (snd (Install_install ctx consumer_id units options)) =
     [ConsumerContentInstall consumer_id units options]"
  by (simp add: content_calls_def Install_install_def Install_try_def Let_def
           split: sum.splits prod.splits)

lemma Uninstall_uninstall_content_calls:
  "content_calls (snd (Uninstall_uninstall ctx consumer_id units options)) =
     [ConsumerContentUninstall consumer_id units options]"
  by (simp add: content_calls_def Uninstall_uninstall_def Uninstall_try_def Let_def
           split: sum.splits prod.splits)

text \<open>
  C4. The units list sent to the server by \<open>Install.run\<close> and by \<open>Uninstall.run\<close> has
  one descriptor for each given name, in the order of the names, and the descriptor of a
  name \<open>n\<close> is \<open>{type_id: TYPE_ID_PKG_GROUP, unit_key: {name: n}}\<close>. It holds for every
  list of names, the empty one included.
\<close>

theorem run_units_one_per_name:
  "map call_units (content_calls (snd (Install_run ctx tid kwargs))) =
     [map (\<lambda>n. \<lparr>type_id = tid, unit_key = [(''name'', n)]\<rparr>) (kw_name kwargs)]
   \<and> map call_units (content_calls (snd (Uninstall_run ctx tid kwargs'))) =
     [map (\<lambda>n. \<lparr>type_id = tid, unit_key = [(''name'', n)]\<rparr>) (kw_name kwargs')]"
  by (simp add: Install_run_def Uninstall_run_def Let_def Install_install_content_calls
        Uninstall_uninstall_content_calls append_units_map)

text \<open>
  C2, as the code has it. The options bag sent by \<open>Install.run\<close> holds the three
  booleans \<open>apply\<close> (the negation of \<open>--no-commit\<close>), \<open>importkeys\<close> (the
  \<open>--import-keys\<close> flag) and \<open>reboot\<close> (the \<open>--reboot\<close> flag). The bag sent by
  \<open>Uninstall.run\<close> holds \<open>apply\<close> and \<open>reboot\<close> only: the uninstall command has no
  \<open>--import-keys\<close> flag and sends no \<open>importkeys\<close>.
\<close>

theorem run_options_bag:
  "map call_options (content_calls (snd (Install_run ctx tid kwargs))) =
     [[(''apply'', \<not> kw_no_commit kwargs), (''importkeys'', kw_import_keys kwargs),
       (''reboot'', kw_reboot kwargs)]]
   \<and> map call_options (content_calls (snd (Uninstall_run ctx tid kwargs'))) =
     [[(''apply'', \<not> kw_no_commit kwargs'), (''reboot'', kw_reboot kwargs')]]"
  by (simp add: Install_run_def Uninstall_run_def Let_def Install_install_content_calls
        Uninstall_uninstall_content_calls)

text \<open>
  C2 as stated fails for \<open>Uninstall.run\<close>: uninstalling the group \<open>web\<close> from the
  consumer \<open>c1\<close>, the options bag has no \<open>importkeys\<close> entry.
\<close>

theorem uninstall_options_lack_importkeys:
  "map_of (call_options (hd (content_calls (snd
      (Uninstall_run (fixed_context (Inr \<lparr>task_id = ''t1'', result = PNone\<rparr>)
                        (Inr \<lparr>task_id = ''t1'', result = PNone\<rparr>) (Inr False) (Inr False) (Inr ()))
         ''package_group''
         \<lparr>kw_consumer_id = ''c1'', kw_no_commit = False, kw_reboot = False, kw_name = [''web'']\<rparr>)))))
     ''importkeys'' = None"
  by (simp add: Uninstall_run_def Let_def Uninstall_uninstall_content_calls)

subsection \<open>The option surface\<close>

text \<open>
  C3, as the code has it. The install command declares the option \<open>--consumer-id\<close>
  (required), the flags \<open>--no-commit\<close> and \<open>--reboot\<close>, the option \<open>--name\<close>
  (required, repeatable, alias \<open>-n\<close>) and the flag \<open>--import-keys\<close>, and nothing else.
  The uninstall command declares the same without \<open>--import-keys\<close>.
\<close>

theorem option_surface:
  "map opt_name (cmd_options Install_init) =
     [''--consumer-id'', ''--no-commit'', ''--reboot'', ''--name'', ''--import-keys'']
   \<and> map is_flag (cmd_options Install_init) = [False, True, True, False, True]
   \<and> map opt_required (filter is_option (cmd_options Install_init)) = [Some True, Some True]
   \<and> map opt_allow_multiple (filter is_option (cmd_options Install_init)) = [None, Some True]
   \<and> map opt_aliases (filter is_option (cmd_options Install_init)) = [None, Some [''-n'']]
   \<and> map opt_name (cmd_options Uninstall_init) =
     [''--consumer-id'', ''--no-commit'', ''--reboot'', ''--name'']
   \<and> map is_flag (cmd_options Uninstall_init) = [False, True, True, False]
   \<and> map opt_required (filter is_option (cmd_options Uninstall_init)) = [Some True, Some True]
   \<and> map opt_allow_multiple (filter is_option (cmd_options Uninstall_init)) = [None, Some True]
   \<and> map opt_aliases (filter is_option (cmd_options Uninstall_init)) = [None, Some [''-n'']]"
  by (simp add: Install_init_def Uninstall_init_def create_option_def)

text \<open>C3 as stated fails for the uninstall command: it declares no \<open>--import-keys\<close>.\<close>

theorem uninstall_declares_no_import_keys:
  "''--import-keys'' \<notin> set (map opt_name (cmd_options Uninstall_init))"
  by (simp add: Uninstall_init_def create_option_def)

subsection \<open>Talking to the server: \<open>install\<close> and \<open>uninstall\<close>\<close>

text \<open>
  C1. When a server call of \<open>install\<close> or \<open>uninstall\<close> raises \<open>NotFoundException\<close>
  (the content call, or \<open>get_task\<close> after it), the command catches it, writes
  \<open>Consumer [<consumer_id>] not found\<close> with the tag \<open>not-found\<close> and returns. It
  catches nothing else: an exception \<open>e\<close> of any other kind raised by either server call
  leaves the command. No \<open>NotFoundException\<close> ever leaves it.
\<close>

theorem install_catches_only_not_found:
  "(consumer_content_install ctx consumer_id units options = Inl NotFoundException \<longrightarrow>
      Install_install ctx consumer_id units options =
        (Inr (), [ConsumerContentInstall consumer_id units options,
                  Write (''Consumer ['' @ consumer_id @ ''] not found'') ''not-found'']))
   \<and> (consumer_content_install ctx consumer_id units options = Inr t \<and>
      tasks_get_task ctx (task_id t) = Inl NotFoundException \<longrightarrow>
      Install_install ctx consumer_id units options =
        (Inr (), [ConsumerContentInstall consumer_id units options,
                  RenderSuccessMessage (''Install task created with id ['' @ task_id t @ '']''),
                  TasksGetTask (task_id t),
                  Write (''Consumer ['' @ consumer_id @ ''] not found'') ''not-found'']))
   \<and> (e \<noteq> NotFoundException \<and>
      (consumer_content_install ctx consumer_id units options = Inl e \<or>
       consumer_content_install ctx consumer_id units options = Inr t \<and>
       tasks_get_task ctx (task_id t) = Inl e) \<longrightarrow>
      fst (Install_install ctx consumer_id units options) = Inl e)
   \<and> fst (Install_install ctx consumer_id units options) \<noteq> Inl NotFoundException
   \<and> (consumer_content_uninstall ctx consumer_id units options = Inl NotFoundException \<longrightarrow>
      Uninstall_uninstall ctx consumer_id units options =
        (Inr (), [ConsumerContentUninstall consumer_id units options,
                  Write (''Consumer ['' @ consumer_id @ ''] not found'') ''not-found'']))
   \<and> (consumer_content_uninstall ctx consumer_id units options = Inr t \<and>
      tasks_get_task ctx (task_id t) = Inl NotFoundException \<longrightarrow>
      Uninstall_uninstall ctx consumer_id units options =
        (Inr (), [ConsumerContentUninstall consumer_id units options,
                  RenderSuccessMessage (''Uninstall task created with id['' @ task_id t @ '']''),
                  TasksGetTask (task_id t),
                  Write (''Consumer ['' @ consumer_id @ ''] not found'') ''not-found'']))
   \<and> (e \<noteq> NotFoundException \<and>
      (consumer_content_uninstall ctx consumer_id units options = Inl e \<or>
       consumer_content_uninstall ctx consumer_id units options = Inr t \<and>
       tasks_get_task ctx (task_id t) = Inl e) \<longrightarrow>
      fst (Uninstall_uninstall ctx consumer_id units options) = Inl e)
   \<and> fst (Uninstall_uninstall ctx consumer_id units options) \<noteq> Inl NotFoundException"
  by (auto simp add: Install_install_def Install_try_def Uninstall_uninstall_def
        Uninstall_try_def Let_def split: prod.splits)

theorem install_catches_only_not_found_witness:
  "Install_install (fixed_context (Inl NotFoundException) (Inr demo_task) (Inr False) (Inr False) (Inr ()))
      ''c1'' demo_units demo_options =
     (Inr (), [ConsumerContentInstall ''c1'' demo_units demo_options,
               Write ''Consumer [c1] not found'' ''not-found''])
   \<and> Install_install (fixed_context (Inr demo_task) (Inl NotFoundException) (Inr False) (Inr False) (Inr ()))
      ''c1'' demo_units demo_options =
     (Inr (), [ConsumerContentInstall ''c1'' demo_units demo_options,
               RenderSuccessMessage ''Install task created with id [t1]'',
               TasksGetTask ''t1'',
               Write ''Consumer [c1] not found'' ''not-found''])
   \<and> fst (Install_install (fixed_context (Inl (OtherException ''connection refused'')) (Inr demo_task)
              (Inr False) (Inr False) (Inr ()))
      ''c1'' demo_units demo_options) = Inl (OtherException ''connection refused'')
   \<and> Uninstall_uninstall (fixed_context (Inl NotFoundException) (Inr demo_task) (Inr False) (Inr False) (Inr ()))
      ''c1'' demo_units demo_options =
     (Inr (), [ConsumerContentUninstall ''c1'' demo_units demo_options,
               Write ''Consumer [c1] not found'' ''not-found''])
   \<and> Uninstall_uninstall (fixed_context (Inr demo_task) (Inl NotFoundException) (Inr False) (Inr False) (Inr ()))
      ''c1'' demo_units demo_options =
     (Inr (), [ConsumerContentUninstall ''c1'' demo_units demo_options,
               RenderSuccessMessage ''Uninstall task created with id[t1]'',
               TasksGetTask ''t1'',
               Write ''Consumer [c1] not found'' ''not-found''])
   \<and> fst (Uninstall_uninstall (fixed_context (Inr demo_task) (Inl (OtherException ''connection refused''))
              (Inr False) (Inr False) (Inr ()))
      ''c1'' demo_units demo_options) = Inl (OtherException ''connection refused'')"
  using install_catches_only_not_found
          [where ctx = "fixed_context (Inl NotFoundException) (Inr demo_task) (Inr False) (Inr False) (Inr ())"
             and consumer_id = "''c1''" and units = demo_units and options = demo_options
             and t = demo_task and e = "OtherException ''connection refused''"]
        install_catches_only_not_found
          [where ctx = "fixed_context (Inr demo_task) (Inl NotFoundException) (Inr False) (Inr False) (Inr ())"
             and consumer_id = "''c1''" and units = demo_units and options = demo_options
             and t = demo_task and e = "OtherException ''connection refused''"]
        install_catches_only_not_found
          [where ctx = "fixed_context (Inl (OtherException ''connection refused'')) (Inr demo_task) (Inr False) (Inr False) (Inr ())"
             and consumer_id = "''c1''" and units = demo_units and options = demo_options
             and t = demo_task and e = "OtherException ''connection refused''"]
        install_catches_only_not_found
          [where ctx = "fixed_context (Inr demo_task) (Inl (OtherException ''connection refused'')) (Inr False) (Inr False) (Inr ())"
             and consumer_id = "''c1''" and units = demo_units and options = demo_options
             and t = demo_task and e = "OtherException ''connection refused''"]
  by (simp add: fixed_context_def demo_task_def)

text \<open>
  Once the content call has returned a task, the log is settled by what \<open>get_task\<close>,
  \<open>rejected\<close>, \<open>postponed\<close> and \<open>process\<close> answer.
\<close>

lemma Install_install_fetched:
  assumes "consumer_content_install ctx consumer_id units options = Inr t"
  shows "(let log = snd (Install_install ctx consumer_id units options);
              fetched = [ConsumerContentInstall consumer_id units options,
                         RenderSuccessMessage (''Install task created with id ['' @ task_id t @ '']''),
                         TasksGetTask (task_id t)]
          in take 3 log = fetched
           \<and> length (filter is_get_task log) = 1
           \<and> (\<forall>t'. tasks_get_task ctx (task_id t) = Inr t' \<longrightarrow>
                 filter is_process log =
                   (if rejected ctx t' = Inr False \<and> postponed ctx t' = Inr False
                    then [Process consumer_id t'] else [])
               \<and> (rejected ctx t' = Inr True \<longrightarrow> log = fetched @ [Rejected t'])
               \<and> (rejected ctx t' = Inr False \<and> postponed ctx t' = Inr True \<longrightarrow>
                     log = fetched @ [Rejected t', Postponed t']))
           \<and> (\<forall>e. tasks_get_task ctx (task_id t) = Inl e \<longrightarrow> filter is_process log = []))"
proof (cases "tasks_get_task ctx (task_id t)")
  case (Inl e)
  with assms show ?thesis
    by (simp add: Install_install_def Install_try_def Let_def)
next
  case (Inr t')
  with assms show ?thesis
    by (cases "rejected ctx t'"; cases "postponed ctx t'"; cases "process ctx consumer_id t'")
       (auto simp add: Install_install_def Install_try_def Let_def split: if_splits)
qed

lemma Uninstall_uninstall_fetched:
  assumes "consumer_content_uninstall ctx consumer_id units options = Inr t"
  shows "(let log = snd (Uninstall_uninstall ctx consumer_id units options);
              fetched = [ConsumerContentUninstall consumer_id units options,
                         RenderSuccessMessage (''Uninstall task created with id['' @ task_id t @ '']''),
                         TasksGetTask (task_id t)]
          in take 3 log = fetched
           \<and> length (filter is_get_task log) = 1
           \<and> (\<forall>t'. tasks_get_task ctx (task_id t) = Inr t' \<longrightarrow>
                 filter is_process log =
                   (if rejected ctx t' = Inr False \<and> postponed ctx t' = Inr False
                    then [Process consumer_id t'] else [])
               \<and> (rejected ctx t' = Inr True \<longrightarrow> log = fetched @ [Rejected t'])
               \<and> (rejected ctx t' = Inr False \<and> postponed ctx t' = Inr True \<longrightarrow>
                     log = fetched @ [Rejected t', Postponed t']))
           \<and> (\<forall>e. tasks_get_task ctx (task_id t) = Inl e \<longrightarrow> filter is_process log = []))"
proof (cases "tasks_get_task ctx (task_id t)")
  case (Inl e)
  with assms show ?thesis
    by (simp add: Uninstall_uninstall_def Uninstall_try_def Let_def)
next
  case (Inr t')
  with assms show ?thesis
    by (cases "rejected ctx t'"; cases "postponed ctx t'"; cases "process ctx consumer_id t'")
       (auto simp add: Uninstall_uninstall_def Uninstall_try_def Let_def split: if_splits)
qed

text \<open>
  C7 as stated fails. When the content call raises \<open>NotFoundException\<close> the command
  catches it and returns: the invocation does not raise, and it never calls
  \<open>get_task\<close>. Here the consumer \<open>c1\<close> is unknown to the server.
\<close>

theorem not_found_returns_without_status_fetch:
  "fst (Install_install (fixed_context (Inl NotFoundException) (Inr demo_task) (Inr False) (Inr False) (Inr ()))
          ''c1'' demo_units demo_options) = Inr ()
   \<and> filter is_get_task
        (snd (Install_install (fixed_context (Inl NotFoundException) (Inr demo_task) (Inr False) (Inr False) (Inr ()))
          ''c1'' demo_units demo_options)) = []
   \<and> fst (Uninstall_uninstall (fixed_context (Inl NotFoundException) (Inr demo_task) (Inr False) (Inr False) (Inr ()))
          ''c1'' demo_units demo_options) = Inr ()
   \<and> filter is_get_task
        (snd (Uninstall_uninstall (fixed_context (Inl NotFoundException) (Inr demo_task) (Inr False) (Inr False) (Inr ()))
          ''c1'' demo_units demo_options)) = []"
  by (simp add: fixed_context_def Install_install_def Install_try_def
        Uninstall_uninstall_def Uninstall_try_def)

text \<open>
  C7, as the code has it. Take an invocation of \<open>install\<close> or \<open>uninstall\<close> that does
  not raise and whose content call returned a task \<open>t\<close>. Then the log starts with the
  content call, the message and the status fetch, in this order, and \<open>get_task\<close> is
  called once. When \<open>get_task\<close> returns the task \<open>t'\<close>, \<open>process\<close> is called, once and
  on \<open>t'\<close>, exactly when \<open>rejected\<close> and \<open>postponed\<close> both answer false; and when
  \<open>rejected\<close> or \<open>postponed\<close> answers true, the check that answered is the last thing
  the command does. When \<open>get_task\<close> raises, \<open>process\<close> is not called.
\<close>

theorem install_call_order_and_gating:
  "(fst (Install_install ctx consumer_id units options) = Inr () \<and>
    consumer_content_install ctx consumer_id units options = Inr t \<longrightarrow>
      (let log = snd (Install_install ctx consumer_id units options);
           fetched = [ConsumerContentInstall consumer_id units options,
                      RenderSuccessMessage (''Install task created with id ['' @ task_id t @ '']''),
                      TasksGetTask (task_id t)]
       in take 3 log = fetched
        \<and> length (filter is_get_task log) = 1
        \<and> (\<forall>t'. tasks_get_task ctx (task_id t) = Inr t' \<longrightarrow>
              filter is_process log =
                (if rejected ctx t' = Inr False \<and> postponed ctx t' = Inr False
                 then [Process consumer_id t'] else [])
            \<and> (rejected ctx t' = Inr True \<longrightarrow> log = fetched @ [Rejected t'])
            \<and> (rejected ctx t' = Inr False \<and> postponed ctx t' = Inr True \<longrightarrow>
                  log = fetched @ [Rejected t', Postponed t']))
        \<and> (\<forall>e. tasks_get_task ctx (task_id t) = Inl e \<longrightarrow> filter is_process log = [])))
   \<and> (fst (Uninstall_uninstall ctx consumer_id units options) = Inr () \<and>
    consumer_content_uninstall ctx consumer_id units options = Inr t \<longrightarrow>
      (let log = snd (Uninstall_uninstall ctx consumer_id units options);
           fetched = [ConsumerContentUninstall consumer_id units options,
                      RenderSuccessMessage (''Uninstall task created with id['' @ task_id t @ '']''),
                      TasksGetTask (task_id t)]
       in take 3 log = fetched
        \<and> length (filter is_get_task log) = 1
        \<and> (\<forall>t'. tasks_get_task ctx (task_id t) = Inr t' \<longrightarrow>
              filter is_process log =
                (if rejected ctx t' = Inr False \<and> postponed ctx t' = Inr False
                 then [Process consumer_id t'] else [])
            \<and> (rejected ctx t' = Inr True \<longrightarrow> log = fetched @ [Rejected t'])
            \<and> (rejected ctx t' = Inr False \<and> postponed ctx t' = Inr True \<longrightarrow>
                  log = fetched @ [Rejected t', Postponed t']))
        \<and> (\<forall>e. tasks_get_task ctx (task_id t) = Inl e \<longrightarrow> filter is_process log = [])))"
  using Install_install_fetched [of ctx consumer_id units options t]
        Uninstall_uninstall_fetched [of ctx consumer_id units options t]
  by blast

theorem install_call_order_and_gating_witness:
  "fst (Install_install (fixed_context (Inr demo_task) (Inr demo_task) (Inr True) (Inr False) (Inr ()))
          ''c1'' demo_units demo_options) = Inr ()
   \<and> snd (Install_install (fixed_context (Inr demo_task) (Inr demo_task) (Inr True) (Inr False) (Inr ()))
          ''c1'' demo_units demo_options) =
       [ConsumerContentInstall ''c1'' demo_units demo_options,
        RenderSuccessMessage ''Install task created with id [t1]'',
        TasksGetTask ''t1'', Rejected demo_task]
   \<and> fst (Uninstall_uninstall (fixed_context (Inr demo_task) (Inr demo_task) (Inr False) (Inr True) (Inr ()))
          ''c1'' demo_units demo_options) = Inr ()
   \<and> snd (Uninstall_uninstall (fixed_context (Inr demo_task) (Inr demo_task) (Inr False) (Inr True) (Inr ()))
          ''c1'' demo_units demo_options) =
       [ConsumerContentUninstall ''c1'' demo_units demo_options,
        RenderSuccessMessage ''Uninstall task created with id[t1]'',
        TasksGetTask ''t1'', Rejected demo_task, Postponed demo_task]
   \<and> fst (Install_install (fixed_context (Inr demo_task) (Inr demo_task) (Inr False) (Inr False) (Inr ()))
          ''c1'' demo_units demo_options) = Inr ()
   \<and> filter is_process
        (snd (Install_install (fixed_context (Inr demo_task) (Inr demo_task) (Inr False) (Inr False) (Inr ()))
          ''c1'' demo_units demo_options)) = [Process ''c1'' demo_task]
   \<and> fst (Uninstall_uninstall (fixed_context (Inr demo_task) (Inl NotFoundException) (Inr False) (Inr False) (Inr ()))
          ''c1'' demo_units demo_options) = Inr ()
   \<and> length (filter is_get_task
        (snd (Uninstall_uninstall (fixed_context (Inr demo_task) (Inl NotFoundException) (Inr False) (Inr False) (Inr ()))
          ''c1'' demo_units demo_options))) = 1
   \<and> filter is_process
        (snd (Uninstall_uninstall (fixed_context (Inr demo_task) (Inl NotFoundException) (Inr False) (Inr False) (Inr ()))
          ''c1'' demo_units demo_options)) = []"
  using install_call_order_and_gating
          [where ctx = "fixed_context (Inr demo_task) (Inr demo_task) (Inr True) (Inr False) (Inr ())"
             and consumer_id = "''c1''" and units = demo_units and options = demo_options
             and t = demo_task]
        install_call_order_and_gating
          [where ctx = "fixed_context (Inr demo_task) (Inr demo_task) (Inr False) (Inr True) (Inr ())"
             and consumer_id = "''c1''" and units = demo_units and options = demo_options
             and t = demo_task]
        install_call_order_and_gating
          [where ctx = "fixed_context (Inr demo_task) (Inr demo_task) (Inr False) (Inr False) (Inr ())"
             and consumer_id = "''c1''" and units = demo_units and options = demo_options
             and t = demo_task]
        install_call_order_and_gating
          [where ctx = "fixed_context (Inr demo_task) (Inl NotFoundException) (Inr False) (Inr False) (Inr ())"
             and consumer_id = "''c1''" and units = demo_units and options = demo_options
             and t = demo_task]
  by (simp add: fixed_context_def demo_task_def Install_try_def Install_install_def
        Uninstall_try_def Uninstall_uninstall_def)

text \<open>
  C10. When the content call returns a task, the message \<open>Install task created with id
  [<id>]\<close> (for uninstall, \<open>Uninstall task created with id[<id>]\<close>) is rendered right
  after the call and before \<open>get_task\<close>, whatever happens next: also when the task is
  then rejected or postponed, and also when a later call raises.
\<close>

theorem task_created_message_before_status_fetch:
  "(consumer_content_install ctx consumer_id units options = Inr t \<longrightarrow>
      take 3 (snd (Install_install ctx consumer_id units options)) =
        [ConsumerContentInstall consumer_id units options,
         RenderSuccessMessage (''Install task created with id ['' @ task_id t @ '']''),
         TasksGetTask (task_id t)])
   \<and> (consumer_content_uninstall ctx consumer_id units options = Inr t \<longrightarrow>
      take 3 (snd (Uninstall_uninstall ctx consumer_id units options)) =
        [ConsumerContentUninstall consumer_id units options,
         RenderSuccessMessage (''Uninstall task created with id['' @ task_id t @ '']''),
         TasksGetTask (task_id t)])"
  by (simp add: Install_install_def Install_try_def Uninstall_uninstall_def Uninstall_try_def Let_def
        split: sum.splits prod.splits)

theorem task_created_message_before_status_fetch_witness:
  "consumer_content_install (fixed_context (Inr demo_task) (Inr demo_task) (Inr True) (Inr False) (Inr ()))
      ''c1'' demo_units demo_options = Inr demo_task
   \<and> take 3 (snd (Install_install (fixed_context (Inr demo_task) (Inr demo_task) (Inr True) (Inr False) (Inr ()))
        ''c1'' demo_units demo_options)) =
       [ConsumerContentInstall ''c1'' demo_units demo_options,
        RenderSuccessMessage ''Install task created with id [t1]'',
        TasksGetTask ''t1'']
   \<and> consumer_content_uninstall (fixed_context (Inr demo_task) (Inr demo_task) (Inr False) (Inr True) (Inr ()))
      ''c1'' demo_units demo_options = Inr demo_task
   \<and> take 3 (snd (Uninstall_uninstall (fixed_context (Inr demo_task) (Inr demo_task) (Inr False) (Inr True) (Inr ()))
        ''c1'' demo_units demo_options)) =
       [ConsumerContentUninstall ''c1'' demo_units demo_options,
        RenderSuccessMessage ''Uninstall task created with id[t1]'',
        TasksGetTask ''t1'']"
  using task_created_message_before_status_fetch
          [where ctx = "fixed_context (Inr demo_task) (Inr demo_task) (Inr True) (Inr False) (Inr ())"
             and consumer_id = "''c1''" and units = demo_units and options = demo_options and t = demo_task]
        task_created_message_before_status_fetch
          [where ctx = "fixed_context (Inr demo_task) (Inr demo_task) (Inr False) (Inr True) (Inr ())"
             and consumer_id = "''c1''" and units = demo_units and options = demo_options and t = demo_task]
  by (simp add: fixed_context_def demo_task_def)

subsection \<open>Rendering the result: \<open>succeeded\<close>\<close>



text \<open>
  C6. When \<open>result['status']\<close> is true and \<open>details['resolved']\<close> is a non-empty list,
  \<open>Install.succeeded\<close> renders the success message \<open>Install Succeeded\<close>, then the title
  \<open>Installed\<close>, then the document list of the resolved entries with the columns
  \<open>name\<close>, \<open>version\<close>, \<open>arch\<close>, \<open>repoid\<close> as both order and filter;
  \<open>Uninstall.succeeded\<close> does the same with \<open>Uninstall Succeeded\<close> and \<open>Uninstalled\<close>.
\<close>

theorem succeeded_resolved_table:
  assumes "subscript (result task) ''status'' = Inr status"
    and "truthy status"
    and "group_details tid (result task) = Inr details"
    and "subscript details ''resolved'' = Inr (PList rs)"
    and "rs \<noteq> []"
  shows "take 3 (snd (Install_succeeded tid ident task)) =
           [RenderSuccessMessage ''Install Succeeded'', RenderTitle ''Installed'',
            RenderDocumentList (PList rs) [''name'', ''version'', ''arch'', ''repoid'']
              [''name'', ''version'', ''arch'', ''repoid'']]
       \<and> take 3 (snd (Uninstall_succeeded tid ident task)) =
           [RenderSuccessMessage ''Uninstall Succeeded'', RenderTitle ''Uninstalled'',
            RenderDocumentList (PList rs) [''name'', ''version'', ''arch'', ''repoid'']
              [''name'', ''version'', ''arch'', ''repoid'']]"
  using assms
  by (simp add: Install_succeeded_def Uninstall_succeeded_def filter_columns_def Let_def
        split: sum.splits)

theorem succeeded_resolved_table_witness:
  "truthy (PBool True)
   \<and> take 3 (snd (Install_succeeded ''package_group'' ''c1''
        \<lparr>task_id = ''t1'', result = report (PBool True) PNone (PList [package ''httpd'']) (PList [])\<rparr>)) =
       [RenderSuccessMessage ''Install Succeeded'', RenderTitle ''Installed'',
        RenderDocumentList (PList [package ''httpd'']) [''name'', ''version'', ''arch'', ''repoid'']
          [''name'', ''version'', ''arch'', ''repoid'']]
   \<and> take 3 (snd (Uninstall_succeeded ''package_group'' ''c1''
        \<lparr>task_id = ''t1'', result = report (PBool True) PNone (PList [package ''httpd'']) (PList [])\<rparr>)) =
       [RenderSuccessMessage ''Uninstall Succeeded'', RenderTitle ''Uninstalled'',
        RenderDocumentList (PList [package ''httpd'']) [''name'', ''version'', ''arch'', ''repoid'']
          [''name'', ''version'', ''arch'', ''repoid'']]"
  using succeeded_resolved_table
          [where task = "\<lparr>task_id = ''t1'', result = report (PBool True) PNone (PList [package ''httpd'']) (PList [])\<rparr>"
             and status = "PBool True" and tid = "''package_group''"
             and details = "PDict [(''message'', PNone), (''resolved'', PList [package ''httpd'']), (''deps'', PList [])]"
             and rs = "[package ''httpd'']" and ident = "''c1''"]
  by (simp add: report_def group_details_def)

text \<open>
  C8. When \<open>result['status']\<close> is true and \<open>details['resolved']\<close> is the empty list,
  \<open>Install.succeeded\<close> renders \<open>Install Succeeded\<close> and then the success message
  \<open>Packages for groups already installed\<close>; it renders no title \<open>Installed\<close>, and
  nothing follows but, possibly, the dependency section. \<open>Uninstall.succeeded\<close> does the
  same with \<open>No matching packages found to uninstall\<close>.
\<close>

theorem succeeded_nothing_resolved:
  assumes "subscript (result task) ''status'' = Inr status"
    and "truthy status"
    and "group_details tid (result task) = Inr details"
    and "subscript details ''resolved'' = Inr (PList [])"
  shows "take 2 (snd (Install_succeeded tid ident task)) =
           [RenderSuccessMessage ''Install Succeeded'',
            RenderSuccessMessage ''Packages for groups already installed'']
       \<and> RenderTitle ''Installed'' \<notin> set (snd (Install_succeeded tid ident task))
       \<and> (drop 2 (snd (Install_succeeded tid ident task)) = []
          \<or> (\<exists>deps. drop 2 (snd (Install_succeeded tid ident task)) =
                [RenderTitle ''Installed for dependency'',
                 RenderDocumentList deps [''name'', ''version'', ''arch'', ''repoid'']
                   [''name'', ''version'', ''arch'', ''repoid'']]))
       \<and> take 2 (snd (Uninstall_succeeded tid ident task)) =
           [RenderSuccessMessage ''Uninstall Succeeded'',
            RenderSuccessMessage ''No matching packages found to uninstall'']
       \<and> RenderTitle ''Uninstalled'' \<notin> set (snd (Uninstall_succeeded tid ident task))
       \<and> (drop 2 (snd (Uninstall_succeeded tid ident task)) = []
          \<or> (\<exists>deps. drop 2 (snd (Uninstall_succeeded tid ident task)) =
                [RenderTitle ''Uninstalled for dependency'',
                 RenderDocumentList deps [''name'', ''version'', ''arch'', ''repoid'']
                   [''name'', ''version'', ''arch'', ''repoid'']]))"
  using assms
  by (simp add: Install_succeeded_def Uninstall_succeeded_def filter_columns_def Let_def
        split: sum.splits)

theorem succeeded_nothing_resolved_witness:
  "subscript (PDict [(''message'', PNone), (''resolved'', PList []), (''deps'', PList [package ''apr''])])
      ''resolved'' = Inr (PList [])
   \<and> snd (Install_succeeded ''package_group'' ''c1''
        \<lparr>task_id = ''t1'', result = report (PBool True) PNone (PList []) (PList [package ''apr''])\<rparr>) =
       [RenderSuccessMessage ''Install Succeeded'',
        RenderSuccessMessage ''Packages for groups already installed'',
        RenderTitle ''Installed for dependency'',
        RenderDocumentList (PList [package ''apr'']) [''name'', ''version'', ''arch'', ''repoid'']
          [''name'', ''version'', ''arch'', ''repoid'']]
   \<and> snd (Uninstall_succeeded ''package_group'' ''c1''
        \<lparr>task_id = ''t1'', result = report (PBool True) PNone (PList []) (PList [package ''apr''])\<rparr>) =
       [RenderSuccessMessage ''Uninstall Succeeded'',
        RenderSuccessMessage ''No matching packages found to uninstall'',
        RenderTitle ''Uninstalled for dependency'',
        RenderDocumentList (PList [package ''apr'']) [''name'', ''version'', ''arch'', ''repoid'']
          [''name'', ''version'', ''arch'', ''repoid'']]"
  using succeeded_nothing_resolved
          [where task = "\<lparr>task_id = ''t1'', result = report (PBool True) PNone (PList []) (PList [package ''apr''])\<rparr>"
             and status = "PBool True" and tid = "''package_group''"
             and details = "PDict [(''message'', PNone), (''resolved'', PList []), (''deps'', PList [package ''apr''])]"
             and ident = "''c1''"]
  by (simp add: report_def group_details_def Install_succeeded_def Uninstall_succeeded_def
        filter_columns_def)

text \<open>
  C9. When \<open>result['status']\<close> is true, the dependency section (the title \<open>Installed
  for dependency\<close>, for uninstall \<open>Uninstalled for dependency\<close>, followed by the
  document list of \<open>details['deps']\<close>) is rendered if and only if the list
  \<open>details['deps']\<close> is not empty, whatever \<open>details['resolved']\<close> is.
\<close>

theorem succeeded_dependency_section:
  assumes "subscript (result task) ''status'' = Inr status"
    and "truthy status"
    and "group_details tid (result task) = Inr details"
    and "subscript details ''resolved'' = Inr resolved"
    and "subscript details ''deps'' = Inr (PList ds)"
  shows "(RenderTitle ''Installed for dependency'' \<in> set (snd (Install_succeeded tid ident task))) = (ds \<noteq> [])
       \<and> (\<exists>before. snd (Install_succeeded tid ident task) =
              before @ [RenderTitle ''Installed for dependency'',
                        RenderDocumentList (PList ds) [''name'', ''version'', ''arch'', ''repoid'']
                          [''name'', ''version'', ''arch'', ''repoid'']]) = (ds \<noteq> [])
       \<and> (RenderTitle ''Uninstalled for dependency'' \<in> set (snd (Uninstall_succeeded tid ident task))) = (ds \<noteq> [])
       \<and> (\<exists>before. snd (Uninstall_succeeded tid ident task) =
              before @ [RenderTitle ''Uninstalled for dependency'',
                        RenderDocumentList (PList ds) [''name'', ''version'', ''arch'', ''repoid'']
                          [''name'', ''version'', ''arch'', ''repoid'']]) = (ds \<noteq> [])"
  using assms
  by (cases "truthy resolved")
     (auto simp add: Install_succeeded_def Uninstall_succeeded_def filter_columns_def Let_def)

theorem succeeded_dependency_section_witness:
  "RenderTitle ''Installed for dependency'' \<in> set (snd (Install_succeeded ''package_group'' ''c1''
        \<lparr>task_id = ''t1'', result = report (PBool True) PNone (PList []) (PList [package ''apr''])\<rparr>))
   \<and> RenderTitle ''Uninstalled for dependency'' \<in> set (snd (Uninstall_succeeded ''package_group'' ''c1''
        \<lparr>task_id = ''t1'', result = report (PBool True) PNone (PList []) (PList [package ''apr''])\<rparr>))
   \<and> RenderTitle ''Installed for dependency'' \<notin> set (snd (Install_succeeded ''package_group'' ''c1''
        \<lparr>task_id = ''t1'', result = report (PBool True) PNone (PList [package ''httpd'']) (PList [])\<rparr>))
   \<and> RenderTitle ''Uninstalled for dependency'' \<notin> set (snd (Uninstall_succeeded ''package_group'' ''c1''
        \<lparr>task_id = ''t1'', result = report (PBool True) PNone (PList [package ''httpd'']) (PList [])\<rparr>))"
  using succeeded_dependency_section
          [where task = "\<lparr>task_id = ''t1'', result = report (PBool True) PNone (PList []) (PList [package ''apr''])\<rparr>"
             and status = "PBool True" and tid = "''package_group''"
             and details = "PDict [(''message'', PNone), (''resolved'', PList []), (''deps'', PList [package ''apr''])]"
             and resolved = "PList []" and ds = "[package ''apr'']" and ident = "''c1''"]
        succeeded_dependency_section
          [where task = "\<lparr>task_id = ''t1'', result = report (PBool True) PNone (PList [package ''httpd'']) (PList [])\<rparr>"
             and status = "PBool True" and tid = "''package_group''"
             and details = "PDict [(''message'', PNone), (''resolved'', PList [package ''httpd'']), (''deps'', PList [])]"
             and resolved = "PList [package ''httpd'']" and ds = "[]" and ident = "''c1''"]
  by (simp add: report_def group_details_def)

end
